theory Spec2Isabelle
  imports Complex_Main
begin

section \<open>Python values, errors and effects\<close>

text \<open>
  The script \<^verbatim>\<open>scripts/start_local_env.py\<close> is embedded function by function.
  Every exception of the source is a value of \<open>error\<close>; a computation returns
  \<open>error + 'a\<close> together with the list of effects it performed, in order.
\<close>

datatype error =
    AttributeError
  | TypeError
  | KeyError
  | IndexError
  | UnboundLocalError
  | CalledProcessError int
  | FileNotFoundError
  | JSONDecodeError
  | UnicodeDecodeError
  | URLError
  | KeyboardInterrupt

text \<open>
  The values \<^verbatim>\<open>json.loads\<close> produces, and the tuples and lists the script builds
  itself. A dict is an association list with string keys; a finite float is the rational
  it denotes.
\<close>

datatype pyval =
    PNone
  | PBool bool
  | PInt int
  | PFloat rat
  | PStr string
  | PList "pyval list"
  | PTuple "pyval list"
  | PDict "(string \<times> pyval) list"

text \<open>
  An f-string or a printed value: literal text and interpolated values. \<open>str()\<close> of
  an arbitrary value is kept symbolic (\<open>Val\<close>); where the interpolated value is a known
  string or integer the model renders it and the text is one \<open>Lit\<close>.
\<close>

datatype piece = Lit string | Val pyval

type_synonym fstring = "piece list"

text \<open>The keyword arguments of \<^verbatim>\<open>subprocess.run\<close> that the script uses.\<close>

record run_kwargs =
  check :: bool
  universal_newlines :: bool
  cwd :: "string option"
  capture_output :: bool

text \<open>
  What the environment does with a command: the executable cannot be started, or the
  child runs and exits with a return code, having written some text to its standard output.
\<close>

datatype run_outcome = Exec_failed | Exited int string

record completed_process =
  returncode :: int
  stdout :: "string option"

text \<open>
  \<^verbatim>\<open>urllib.request.urlopen\<close>: it raises (connection refused, timeout, an HTTP error
  status) or returns a response with a status and a body; the body is \<open>None\<close> when its
  bytes are not valid UTF-8.
\<close>

datatype http_outcome = Http_raised | Http_response nat "string option"

text \<open>
  \<^verbatim>\<open>Popen.wait()\<close>: the child exits with a return code, the call is interrupted by
  ctrl-c (KeyboardInterrupt), or the child never exits.
\<close>

datatype wait_outcome = Child_exited int | Interrupted | Blocks_forever

datatype event =
    E_run "string list" run_kwargs run_outcome
  | E_popen "string list" bool
  | E_urlopen fstring http_outcome
  | E_poll "int option"
  | E_wait wait_outcome
  | E_sleep rat
  | E_print fstring
  | E_send_signal int
  | E_enter_fresh_start

text \<open>
  \<open>E_send_signal\<close> stands for \<^verbatim>\<open>Popen.send_signal\<close>, \<^verbatim>\<open>terminate\<close>, \<^verbatim>\<open>kill\<close> and
  \<^verbatim>\<open>os.kill\<close> on the child; \<open>E_enter_fresh_start\<close> marks a call of
  \<^verbatim>\<open>fresh_start\<close>. \<^verbatim>\<open>logging.debug\<close> leaves no event: the level is INFO.
\<close>

type_synonym 'a exec = "(error + 'a) \<times> event list"

text \<open>
  The world the script runs in. The outcome of an interaction is given per call: the
  \<open>i\<close>-th iteration of the readiness loop, the \<open>k\<close>-th \<^verbatim>\<open>subprocess.run\<close> of
  \<^verbatim>\<open>fresh_start\<close>, the \<open>n\<close>-th \<^verbatim>\<open>wait()\<close>. \<open>json_decode\<close> is the parser behind
  \<^verbatim>\<open>json.loads\<close> (\<open>None\<close>: the text is not JSON).
\<close>

record env =
  lsof_result :: run_outcome
  kill_result :: run_outcome
  popen_ok :: bool
  probe_at :: "nat \<Rightarrow> http_outcome"
  poll_at :: "nat \<Rightarrow> int option"
  run_at :: "nat \<Rightarrow> run_outcome"
  now :: rat
  txn_response :: http_outcome
  json_decode :: "string \<Rightarrow> pyval option"
  wait_at :: "nat \<Rightarrow> wait_outcome"

record args =
  debug :: bool
  force_restart :: bool
  offline :: bool
  aptos_cli_path :: string

subsection \<open>Sequencing\<close>

definition ret :: "'a \<Rightarrow> 'a exec" where
  "ret x = (Inr x, [])"

definition emit :: "event \<Rightarrow> unit exec" where
  "emit ev = (Inr (), [ev])"

definition lift :: "error + 'a \<Rightarrow> 'a exec" where
  "lift r = (r, [])"

definition exec_bind :: "'a exec \<Rightarrow> ('a \<Rightarrow> 'b exec) \<Rightarrow> 'b exec" where
  "exec_bind m f =
     (case m of
        (Inl err, t) \<Rightarrow> (Inl err, t)
      | (Inr x, t) \<Rightarrow> (case f x of (r, t') \<Rightarrow> (r, t @ t')))"

subsection \<open>Python built-ins\<close>

text \<open>\<^verbatim>\<open>int(x)\<close> of a float truncates towards zero.\<close>

definition py_int :: "rat \<Rightarrow> int" where
  "py_int x = (if 0 \<le> x then \<lfloor>x\<rfloor> else \<lceil>x\<rceil>)"

text \<open>
  Python floats are IEEE binary64 numbers, and \<^verbatim>\<open>x + y\<close> on them is the exact sum
  rounded to the nearest double, ties to the even significand. A double has 53
  significant bits; \<open>float_exponent m\<close> is the binary exponent of \<open>m > 0\<close>, that is
  \<open>\<lfloor>log\<^sub>2 m\<rfloor>\<close>, and the unit of the last place is bounded below as for the subnormal
  numbers. The exponent is not bounded above: a sum beyond the largest double does not
  arise from a clock value.
\<close>

definition pow2 :: "int \<Rightarrow> rat" where
  "pow2 e = (if 0 \<le> e then 2 ^ nat e else 1 / 2 ^ nat (- e))"

function ilog2 :: "int \<Rightarrow> int" where
  "ilog2 n = (if n < 2 then 0 else 1 + ilog2 (n div 2))"
  by pat_completeness auto
termination
  by (relation "measure nat") auto

definition float_exponent :: "rat \<Rightarrow> int" where
  "float_exponent m =
     (if 1 \<le> m then ilog2 \<lfloor>m\<rfloor> else - (1 + ilog2 (\<lceil>1 / m\<rceil> - 1)))"

definition round_half_even :: "rat \<Rightarrow> int" where
  "round_half_even y =
     (if y - of_int \<lfloor>y\<rfloor> < 1 / 2 then \<lfloor>y\<rfloor>
      else if 1 / 2 < y - of_int \<lfloor>y\<rfloor> then \<lfloor>y\<rfloor> + 1
      else if even \<lfloor>y\<rfloor> then \<lfloor>y\<rfloor> else \<lfloor>y\<rfloor> + 1)"

definition round_double :: "rat \<Rightarrow> rat" where
  "round_double x =
     (if x = 0 then 0
      else sgn x * of_int (round_half_even (\<bar>x\<bar> / pow2 (max (float_exponent \<bar>x\<bar> - 52) (- 1074))))
           * pow2 (max (float_exponent \<bar>x\<bar> - 52) (- 1074)))"

definition float_add :: "rat \<Rightarrow> rat \<Rightarrow> rat" where
  "float_add x y = round_double (x + y)"

definition digit_char :: "nat \<Rightarrow> char" where
  "digit_char d = ''0123456789'' ! d"

function str_nat :: "nat \<Rightarrow> string" where
  "str_nat n = (if n < 10 then [digit_char n] else str_nat (n div 10) @ [digit_char (n mod 10)])"
  by pat_completeness auto
termination
  by (relation "measure id") auto

text \<open>\<^verbatim>\<open>str(i)\<close>, the text an f-string puts for an integer.\<close>

definition py_str_int :: "int \<Rightarrow> string" where
  "py_str_int i = (if i < 0 then CHR ''-'' # str_nat (nat (- i)) else str_nat (nat i))"

text \<open>\<^verbatim>\<open>v[k]\<close> with a string key: only a dict accepts it.\<close>

definition py_getitem :: "pyval \<Rightarrow> string \<Rightarrow> error + pyval" where
  "py_getitem v k =
     (case v of
        PDict kvs \<Rightarrow> (case map_of kvs k of None \<Rightarrow> Inl KeyError | Some x \<Rightarrow> Inr x)
      | _ \<Rightarrow> Inl TypeError)"

text \<open>\<^verbatim>\<open>v.get(k)\<close>: a dict method; any other value has no such attribute.\<close>

definition py_get :: "pyval \<Rightarrow> string \<Rightarrow> error + pyval" where
  "py_get v k =
     (case v of
        PDict kvs \<Rightarrow> Inr (case map_of kvs k of None \<Rightarrow> PNone | Some x \<Rightarrow> x)
      | _ \<Rightarrow> Inl AttributeError)"

text \<open>What a \<^verbatim>\<open>for\<close> loop iterates over.\<close>

definition py_iter :: "pyval \<Rightarrow> error + pyval list" where
  "py_iter v =
     (case v of
        PList xs \<Rightarrow> Inr xs
      | PTuple xs \<Rightarrow> Inr xs
      | PDict kvs \<Rightarrow> Inr (map (\<lambda>kv. PStr (fst kv)) kvs)
      | PStr s \<Rightarrow> Inr (map (\<lambda>c. PStr [c]) s)
      | _ \<Rightarrow> Inl TypeError)"

fun intercalate :: "string \<Rightarrow> string list \<Rightarrow> string" where
  "intercalate sep [] = []"
| "intercalate sep [s] = s"
| "intercalate sep (s # t # ss) = s @ sep @ intercalate sep (t # ss)"

fun the_strs :: "pyval list \<Rightarrow> string list option" where
  "the_strs [] = Some []"
| "the_strs (PStr s # vs) = (case the_strs vs of None \<Rightarrow> None | Some ss \<Rightarrow> Some (s # ss))"
| "the_strs (_ # vs) = None"

text \<open>\<^verbatim>\<open>sep.join(items)\<close>: every item must be a str, else TypeError.\<close>

definition py_join :: "string \<Rightarrow> pyval list \<Rightarrow> error + string" where
  "py_join sep items =
     (case the_strs items of None \<Rightarrow> Inl TypeError | Some ss \<Rightarrow> Inr (intercalate sep ss))"

text \<open>Truthiness of what \<^verbatim>\<open>Popen.poll()\<close> returns: \<open>None\<close> and \<open>0\<close> are false.\<close>

definition truthy_rc :: "int option \<Rightarrow> bool" where
  "truthy_rc r = (case r of None \<Rightarrow> False | Some rc \<Rightarrow> rc \<noteq> 0)"

text \<open>
  \<^verbatim>\<open>subprocess.run(cmd, **kw)\<close>: with \<^verbatim>\<open>check\<close> a non-zero return code raises; the
  result's \<^verbatim>\<open>stdout\<close> holds the child's output only with \<^verbatim>\<open>capture_output\<close>, and is
  \<open>None\<close> otherwise.
\<close>

definition subprocess_run :: "run_kwargs \<Rightarrow> run_outcome \<Rightarrow> error + completed_process" where
  "subprocess_run kw out =
     (case out of
        Exec_failed \<Rightarrow> Inl FileNotFoundError
      | Exited rc txt \<Rightarrow>
          if check kw \<and> rc \<noteq> 0 then Inl (CalledProcessError rc)
          else Inr \<lparr>returncode = rc, stdout = (if capture_output kw then Some txt else None)\<rparr>)"

definition run :: "string list \<Rightarrow> run_kwargs \<Rightarrow> run_outcome \<Rightarrow> completed_process exec" where
  "run cmd kw out = (subprocess_run kw out, [E_run cmd kw out])"

text \<open>\<^verbatim>\<open>json.loads(s)\<close>: \<open>s\<close> must be a str; \<open>None\<close> raises TypeError.\<close>

definition json_loads :: "env \<Rightarrow> string option \<Rightarrow> error + pyval" where
  "json_loads e s =
     (case s of
        None \<Rightarrow> Inl TypeError
      | Some txt \<Rightarrow> (case json_decode e txt of None \<Rightarrow> Inl JSONDecodeError | Some v \<Rightarrow> Inr v))"

text \<open>
  Strings are ASCII text. \<^verbatim>\<open>str.splitlines()\<close> breaks at the line boundaries below
  (\<^verbatim>\<open>\r\n\<close> is one boundary); \<^verbatim>\<open>str.split()\<close> cuts at runs of whitespace.
\<close>

definition is_linebreak :: "char \<Rightarrow> bool" where
  "is_linebreak c \<longleftrightarrow>
     c \<in> set [CHR 0x0A, CHR 0x0B, CHR 0x0C, CHR 0x0D, CHR 0x1C, CHR 0x1D, CHR 0x1E]"

definition is_space :: "char \<Rightarrow> bool" where
  "is_space c \<longleftrightarrow>
     c \<in> set [CHR 0x09, CHR 0x0A, CHR 0x0B, CHR 0x0C, CHR 0x0D,
                CHR 0x1C, CHR 0x1D, CHR 0x1E, CHR 0x1F, CHR 0x20]"

fun splitlines_from :: "string \<Rightarrow> string \<Rightarrow> string list" where
  "splitlines_from cur [] = (if cur = [] then [] else [rev cur])"
| "splitlines_from cur [c] = (if is_linebreak c then [rev cur] else [rev (c # cur)])"
| "splitlines_from cur (c # d # cs) =
     (if c = CHR 0x0D \<and> d = CHR 0x0A then rev cur # splitlines_from [] cs
      else if is_linebreak c then rev cur # splitlines_from [] (d # cs)
      else splitlines_from (c # cur) (d # cs))"

definition splitlines :: "string \<Rightarrow> string list" where
  "splitlines s = splitlines_from [] s"

fun split_from :: "string \<Rightarrow> string \<Rightarrow> string list" where
  "split_from cur [] = (if cur = [] then [] else [rev cur])"
| "split_from cur (c # cs) =
     (if is_space c then (if cur = [] then split_from [] cs else rev cur # split_from [] cs)
      else split_from (c # cur) cs)"

definition py_split :: "string \<Rightarrow> string list" where
  "py_split s = split_from [] s"

definition startswith :: "string \<Rightarrow> string \<Rightarrow> bool" where
  "startswith s p \<longleftrightarrow> take (length p) s = p"

text \<open>
  Attribute lookup on the \<^verbatim>\<open>logging\<close> module. The names are the module's public ones
  (its \<^verbatim>\<open>__all__\<close>); \<^verbatim>\<open>setLevel\<close> is a method of loggers and handlers, not a name
  of the module.
\<close>

definition logging_module_names :: "string list" where
  "logging_module_names =
     [''BASIC_FORMAT'', ''BufferingFormatter'', ''CRITICAL'', ''DEBUG'', ''ERROR'', ''FATAL'',
      ''FileHandler'', ''Filter'', ''Formatter'', ''Handler'', ''INFO'', ''LogRecord'',
      ''Logger'', ''LoggerAdapter'', ''NOTSET'', ''NullHandler'', ''StreamHandler'', ''WARN'',
      ''WARNING'', ''addLevelName'', ''basicConfig'', ''captureWarnings'', ''critical'',
      ''debug'', ''disable'', ''error'', ''exception'', ''fatal'', ''getLevelName'',
      ''getLogger'', ''getLoggerClass'', ''info'', ''log'', ''makeLogRecord'',
      ''setLoggerClass'', ''shutdown'', ''warn'', ''warning'', ''getLogRecordFactory'',
      ''setLogRecordFactory'', ''lastResort'', ''raiseExceptions'', ''getLevelNamesMapping'',
      ''getHandlerByName'', ''getHandlerNames'']"

definition module_getattr :: "string list \<Rightarrow> string \<Rightarrow> error + unit" where
  "module_getattr names n = (if n \<in> set names then Inr () else Inl AttributeError)"

section \<open>The script\<close>

subsection \<open>Constants\<close>

definition DEPLOYER_PRIVATE_KEY :: string where
  "DEPLOYER_PRIVATE_KEY = ''0xc7e8f661af55fa7e8e52f5b2f5d3daf3f3f49040ea1f05c07c29c47c3ad877c0''"

definition DEPLOYER_ADDRESS :: string where
  "DEPLOYER_ADDRESS = ''0x5322ac25e855378909b517008c4a16137fc9dbd6c6ff8c5e762ab887002442e5''"

definition DEPLOYER_PROFILE_NAME :: string where
  "DEPLOYER_PROFILE_NAME = ''deployer''"

definition PLAYER1_PRIVATE_KEY :: string where
  "PLAYER1_PRIVATE_KEY = ''0xece937b5a5f1df41ba6a550e212492ee98573d3799d0035aa20c29674cd0ceff''"

definition PLAYER1_ADDRESS :: string where
  "PLAYER1_ADDRESS = ''0x296102a3893d43e11de2aa142fbb126377120d7d71c246a2f95d5b4f3ba16b30''"

definition PLAYER1_PROFILE_NAME :: string where
  "PLAYER1_PROFILE_NAME = ''local''"

definition PLAYER2_PRIVATE_KEY :: string where
  "PLAYER2_PRIVATE_KEY = ''0xece937b5a5f1df41ba6a550e212492ee98573d3799d0035aa20c29674cd0cefd''"

definition PLAYER2_ADDRESS :: string where
  "PLAYER2_ADDRESS = ''0xaf769425b319270f91768e8910ed4cde16c4cea32751062c9ab3f2b21adc27b4''"

definition PLAYER2_PROFILE_NAME :: string where
  "PLAYER2_PROFILE_NAME = ''player2''"

definition PACKAGE :: string where
  "PACKAGE = ''hongbao''"

definition HONGBAO_MODULE :: string where
  "HONGBAO_MODULE = ''hongbao''"

definition DEFAULT_SUBPROCESS_KWARGS :: run_kwargs where
  "DEFAULT_SUBPROCESS_KWARGS =
     \<lparr>check = True, universal_newlines = True, cwd = Some ''move/'', capture_output = False\<rparr>"

subsection \<open>\<^verbatim>\<open>kill_process_at_port\<close>\<close>

fun last_aptos_pid :: "string list \<Rightarrow> string option \<Rightarrow> error + string option" where
  "last_aptos_pid [] pid = Inr pid"
| "last_aptos_pid (line # rest) pid =
     (if startswith line ''aptos'' then
        (case py_split line of
           f0 # f1 # fs \<Rightarrow> last_aptos_pid rest (Some f1)
         | _ \<Rightarrow> Inl IndexError)
      else last_aptos_pid rest pid)"

definition kill_process_at_port :: "env \<Rightarrow> int \<Rightarrow> unit exec" where
  "kill_process_at_port e port =
     exec_bind
       (run [''lsof'', ''-i'', '':'' @ py_str_int port]
          \<lparr>check = False, universal_newlines = True, cwd = None, capture_output = True\<rparr>
          (lsof_result e))
       (\<lambda>out. exec_bind
          (lift (case stdout out of
                   None \<Rightarrow> Inl AttributeError
                 | Some s \<Rightarrow> last_aptos_pid (splitlines s) None))
          (\<lambda>pid. case pid of
                   None \<Rightarrow> ret ()
                 | Some p \<Rightarrow>
                     if p = [] then ret ()
                     else exec_bind
                       (run [''kill'', p]
                          \<lparr>check = False, universal_newlines = False, cwd = None,
                            capture_output = False\<rparr>
                          (kill_result e))
                       (\<lambda>_. emit (E_print
                          [Lit (''[Local] Killed existing process occupying port ''
                                @ py_str_int port @ '' with PID '' @ p)]))))"

subsection \<open>The readiness loop of \<^verbatim>\<open>main\<close>\<close>

datatype ready_outcome = Ready | Crashed

definition READY_URL :: fstring where
  "READY_URL = [Lit ''http://127.0.0.1:8070'']"

text \<open>
  Lines 80 to 91: \<^verbatim>\<open>while True\<close>, with the literal sleep time as the parameter \<open>p\<close>
  (\<^verbatim>\<open>main\<close> passes 0.25). The loop has no bound of its own: \<open>fuel\<close> is the number of
  iterations watched, and the result \<open>None\<close> says the loop is still running after them.
  \<open>i\<close> counts the iterations already made. The bare \<^verbatim>\<open>except\<close> catches whatever
  \<^verbatim>\<open>urlopen\<close> raises; a response whose status is not 200 goes to the sleep with no
  look at the child.
\<close>

fun wait_until_ready :: "rat \<Rightarrow> env \<Rightarrow> nat \<Rightarrow> nat \<Rightarrow> ready_outcome option \<times> event list" where
  "wait_until_ready p e 0 i = (None, [])"
| "wait_until_ready p e (Suc fuel) i =
     (case probe_at e i of
        Http_response status body \<Rightarrow>
          if status = 200 then (Some Ready, [E_urlopen READY_URL (probe_at e i)])
          else (case wait_until_ready p e fuel (Suc i) of
                  (r, t) \<Rightarrow> (r, E_urlopen READY_URL (probe_at e i) # E_sleep p # t))
      | Http_raised \<Rightarrow>
          if truthy_rc (poll_at e i)
          then (Some Crashed,
                [E_urlopen READY_URL (probe_at e i), E_poll (poll_at e i),
                 E_print [Lit ''[Local] Localnet crashed on startup, exiting...'']])
          else (case wait_until_ready p e fuel (Suc i) of
                  (r, t) \<Rightarrow>
                    (r, E_urlopen READY_URL (probe_at e i) # E_poll (poll_at e i)
                        # E_sleep p # t)))"

subsection \<open>\<^verbatim>\<open>fresh_start\<close>\<close>

definition ACCOUNTS :: "(string \<times> string) list" where
  "ACCOUNTS =
     [(DEPLOYER_PROFILE_NAME, DEPLOYER_PRIVATE_KEY),
      (PLAYER1_PROFILE_NAME, PLAYER1_PRIVATE_KEY),
      (PLAYER2_PROFILE_NAME, PLAYER2_PRIVATE_KEY)]"

definition init_cmd :: "args \<Rightarrow> string \<Rightarrow> string \<Rightarrow> string list" where
  "init_cmd a private_key profile_name =
     [aptos_cli_path a, ''init'', ''--network'', ''local'', ''--private-key'', private_key,
      ''--assume-yes'', ''--profile'', profile_name]"

text \<open>Lines 115 to 137; \<open>k\<close> is the number of the next \<^verbatim>\<open>subprocess.run\<close>.\<close>

fun create_accounts :: "args \<Rightarrow> env \<Rightarrow> nat \<Rightarrow> (string \<times> string) list \<Rightarrow> unit exec" where
  "create_accounts a e k [] = (Inr (), [])"
| "create_accounts a e k ((profile_name, private_key) # rest) =
     (case run (init_cmd a private_key profile_name) DEFAULT_SUBPROCESS_KWARGS (run_at e k) of
        (Inl err, t) \<Rightarrow> (Inl err, t)
      | (Inr _, t) \<Rightarrow>
          (case create_accounts a e (Suc k) rest of
             (r, t') \<Rightarrow>
               (r, t @ E_print [Lit (''[Local] Created account '' @ profile_name
                                     @ '' on localnet'')] # t')))"

definition publish_cmd :: "args \<Rightarrow> string list" where
  "publish_cmd a =
     [aptos_cli_path a, ''move'', ''publish'', ''--named-addresses'',
      ''addr='' @ DEPLOYER_ADDRESS, ''--assume-yes'', ''--profile'', DEPLOYER_PROFILE_NAME]
     @ (if offline a then [''--skip-fetch-latest-git-deps''] else [])"

text \<open>
  Lines 162 to 179; \<open>t\<close> is the double that \<^verbatim>\<open>time.time()\<close> returns, and
  \<^verbatim>\<open>time.time() + 60 * 30\<close> is a sum of doubles.
\<close>

definition create_gift_cmd :: "args \<Rightarrow> rat \<Rightarrow> string list" where
  "create_gift_cmd a t =
     [aptos_cli_path a, ''move'', ''run'', ''--assume-yes'', ''--profile'',
      DEPLOYER_PROFILE_NAME, ''--function-id'',
      DEPLOYER_PROFILE_NAME @ ''::'' @ HONGBAO_MODULE @ ''::create_gift_coin'',
      ''--type-args'', ''0x1::aptos_coin::AptosCoin'', ''--args'',
      ''u64:4'',
      ''u64:'' @ py_str_int (py_int (float_add t (of_int (60 * 30)))),
      ''u64:'' @ py_str_int (10 ^ 7),
      ''u8:[]'',
      ''bool:false'']"

definition GIFT_TYPE :: string where
  "GIFT_TYPE = DEPLOYER_ADDRESS @ ''::'' @ HONGBAO_MODULE @ ''::Gift''"

definition stdout_val :: "completed_process \<Rightarrow> pyval" where
  "stdout_val result = (case stdout result of None \<Rightarrow> PNone | Some s \<Rightarrow> PStr s)"

text \<open>Lines 183 to 192: the transaction hash from the captured output, then the
  transaction by that hash.\<close>

definition get_txn_data :: "env \<Rightarrow> completed_process \<Rightarrow> pyval exec" where
  "get_txn_data e result =
     exec_bind (emit (E_print [Val (stdout_val result)])) (\<lambda>_.
     exec_bind (lift (json_loads e (stdout result))) (\<lambda>doc.
     exec_bind (lift (py_getitem doc ''Result'')) (\<lambda>res.
     exec_bind (lift (py_getitem res ''transaction_hash'')) (\<lambda>txn_hash.
     exec_bind
       (case txn_response e of
          Http_raised \<Rightarrow>
            (Inl URLError,
             [E_urlopen [Lit ''http://127.0.0.1:8080/v1/transactions/by_hash/'', Val txn_hash]
                (txn_response e)])
        | Http_response status body \<Rightarrow>
            (case body of None \<Rightarrow> Inl UnicodeDecodeError | Some b \<Rightarrow> Inr b,
             [E_urlopen [Lit ''http://127.0.0.1:8080/v1/transactions/by_hash/'', Val txn_hash]
                (txn_response e)]))
       (\<lambda>body. lift (json_loads e (Some body)))))))"

text \<open>
  Lines 195 to 199, the \<^verbatim>\<open>for\<close> loop: \<open>Some\<close> address at the \<^verbatim>\<open>break\<close>, \<open>None\<close>
  when the list is exhausted and \<^verbatim>\<open>gift_address\<close> was never bound.
\<close>

fun find_gift :: "pyval list \<Rightarrow> pyval option exec" where
  "find_gift [] = (Inr None, [])"
| "find_gift (change # rest) =
     (case py_getitem change ''data'' of
        Inl err \<Rightarrow> (Inl err, [E_print [Val change]])
      | Inr d \<Rightarrow>
          (case py_get d ''type'' of
             Inl err \<Rightarrow> (Inl err, [E_print [Val change]])
           | Inr ty \<Rightarrow>
               if ty = PStr GIFT_TYPE
               then (case py_getitem change ''address'' of
                       Inl err \<Rightarrow> (Inl err, [E_print [Val change]])
                     | Inr addr \<Rightarrow> (Inr (Some addr), [E_print [Val change]]))
               else (case find_gift rest of (r, t) \<Rightarrow> (r, E_print [Val change] # t))))"

text \<open>Lines 195 to 200: the loop over \<^verbatim>\<open>data["changes"]\<close> and the print that reads
  \<^verbatim>\<open>gift_address\<close>.\<close>

definition resolve_gift_address :: "pyval list \<Rightarrow> pyval exec" where
  "resolve_gift_address changes =
     exec_bind (find_gift changes) (\<lambda>found.
       case found of
         None \<Rightarrow> lift (Inl UnboundLocalError)
       | Some gift_address \<Rightarrow>
           exec_bind (emit (E_print [Lit ''[Local] Created gift at '', Val gift_address]))
             (\<lambda>_. ret gift_address))"

text \<open>Lines 203 to 233. The argument list is built before \<^verbatim>\<open>subprocess.run\<close> is
  called.\<close>

definition snatch :: "args \<Rightarrow> env \<Rightarrow> pyval \<Rightarrow> unit exec" where
  "snatch a e gift_address =
     exec_bind
       (lift (py_join '',''
          [PTuple [PStr ''address'', gift_address],
           PTuple [PStr ''vector<u8>'', PList []],
           PTuple [PStr ''vector<u8>'', PList []]]))
       (\<lambda>joined. exec_bind
          (run [aptos_cli_path a, ''move'', ''run'', ''--assume-yes'', ''--profile'',
                PLAYER1_PROFILE_NAME, ''--function-id'',
                DEPLOYER_PROFILE_NAME @ ''::'' @ HONGBAO_MODULE @ ''::snatch_packet'',
                ''--args'', joined]
             DEFAULT_SUBPROCESS_KWARGS (run_at e 5))
          (\<lambda>_. emit (E_print [Lit (''[Local] Snatched  as '' @ PLAYER1_PROFILE_NAME)])))"

text \<open>Lines 195 to 233: the address found is what the claim is made against.\<close>

definition resolve_and_snatch :: "args \<Rightarrow> env \<Rightarrow> pyval list \<Rightarrow> unit exec" where
  "resolve_and_snatch a e cs =
     exec_bind (resolve_gift_address cs) (\<lambda>gift_address. snatch a e gift_address)"

definition fresh_start :: "args \<Rightarrow> env \<Rightarrow> unit exec" where
  "fresh_start a e =
     exec_bind (emit E_enter_fresh_start) (\<lambda>_.
     exec_bind (create_accounts a e 0 ACCOUNTS) (\<lambda>_.
     exec_bind (run (publish_cmd a) DEFAULT_SUBPROCESS_KWARGS (run_at e 3)) (\<lambda>_.
     exec_bind (emit (E_print [Lit (''[Local] Published the '' @ PACKAGE
                                    @ '' Move module at '' @ DEPLOYER_ADDRESS)])) (\<lambda>_.
     exec_bind (run (create_gift_cmd a (now e)) DEFAULT_SUBPROCESS_KWARGS (run_at e 4))
       (\<lambda>result.
     exec_bind (get_txn_data e result) (\<lambda>data.
     exec_bind (lift (py_getitem data ''changes'')) (\<lambda>changes.
     exec_bind (lift (py_iter changes)) (\<lambda>cs.
     exec_bind (resolve_and_snatch a e cs) (\<lambda>_.
     emit (E_print [Lit ''[Local] Done, you can now interact with the localnet!'']))))))))))"

subsection \<open>\<^verbatim>\<open>main\<close>\<close>

text \<open>Lines 100 to 109: wait for the node; on ctrl-c wait once more.\<close>

definition wait_for_exit :: "env \<Rightarrow> (error + unit) option \<times> event list" where
  "wait_for_exit e =
     (case wait_at e 0 of
        Child_exited rc \<Rightarrow>
          (Some (Inr ()), [E_wait (wait_at e 0), E_print [Lit ''[Local] Done, goodbye!'']])
      | Blocks_forever \<Rightarrow> (None, [E_wait (wait_at e 0)])
      | Interrupted \<Rightarrow>
          (case wait_at e 1 of
             Child_exited rc \<Rightarrow>
               (Some (Inr ()),
                [E_wait (wait_at e 0),
                 E_print [Lit ''[Local] Received ctrl-c, shutting down localnet''],
                 E_wait (wait_at e 1),
                 E_print [Lit ''[Local] Localnet shut down''],
                 E_print [Lit ''[Local] Done, goodbye!'']])
           | Blocks_forever \<Rightarrow>
               (None,
                [E_wait (wait_at e 0),
                 E_print [Lit ''[Local] Received ctrl-c, shutting down localnet''],
                 E_wait (wait_at e 1)])
           | Interrupted \<Rightarrow>
               (Some (Inl KeyboardInterrupt),
                [E_wait (wait_at e 0),
                 E_print [Lit ''[Local] Received ctrl-c, shutting down localnet''],
                 E_wait (wait_at e 1)])))"

definition localnet_cmd :: "args \<Rightarrow> string list" where
  "localnet_cmd a =
     [aptos_cli_path a, ''node'', ''run-localnet'', ''--with-indexer-api'']
     @ (if force_restart a then [''--force-restart'', ''--assume-yes''] else [])"

text \<open>Lines 66 to 79: the debug option, the port, the node process.\<close>

definition launch :: "args \<Rightarrow> env \<Rightarrow> unit exec" where
  "launch a e =
     exec_bind
       (if debug a then lift (module_getattr logging_module_names ''setLevel'') else ret ())
       (\<lambda>_. exec_bind (kill_process_at_port e 8080)
       (\<lambda>_. exec_bind
          (if popen_ok e then emit (E_popen (localnet_cmd a) True)
           else (Inl FileNotFoundError, [E_popen (localnet_cmd a) False]))
       (\<lambda>_. emit (E_print [Lit ''[Local] Waiting for localnet to start up...'']))))"

text \<open>Lines 92 to 109, after the loop has left through \<^verbatim>\<open>break\<close>.\<close>

definition after_ready :: "args \<Rightarrow> env \<Rightarrow> (error + unit) option \<times> event list" where
  "after_ready a e =
     (case (if force_restart a then fresh_start a e else ret ()) of
        (Inl err, t) \<Rightarrow> (Some (Inl err), E_print [Lit ''[Local] Localnet came up!''] # t)
      | (Inr _, t) \<Rightarrow>
          (case wait_for_exit e of
             (r, t2) \<Rightarrow>
               (r, E_print [Lit ''[Local] Localnet came up!''] # t
                   @ E_print [Lit ''[Local] Setup complete, localnet is ready and running'']
                   # t2)))"

text \<open>
  \<^verbatim>\<open>main\<close>: \<open>None\<close> when it has not returned (the loop is still running after \<open>fuel\<close>
  iterations, or the node never exits), \<open>Some (Inr ())\<close> when it returns, \<open>Some (Inl err)\<close>
  when an exception leaves it.
\<close>

definition main :: "args \<Rightarrow> env \<Rightarrow> nat \<Rightarrow> (error + unit) option \<times> event list" where
  "main a e fuel =
     (case launch a e of
        (Inl err, t) \<Rightarrow> (Some (Inl err), t)
      | (Inr _, t) \<Rightarrow>
          (case wait_until_ready (1 / 4) e fuel 0 of
             (None, t2) \<Rightarrow> (None, t @ t2)
           | (Some Crashed, t2) \<Rightarrow> (Some (Inr ()), t @ t2)
           | (Some Ready, t2) \<Rightarrow>
               (case after_ready a e of (r, t3) \<Rightarrow> (r, t @ t2 @ t3))))"

text \<open>
  The status the interpreter exits with: 0 when \<^verbatim>\<open>main()\<close> returns, 1 when an
  exception leaves it (130, the shell's status of a SIGINT death, for KeyboardInterrupt).
\<close>

definition exit_status :: "(error + unit) option \<Rightarrow> int option" where
  "exit_status r =
     (case r of
        None \<Rightarrow> None
      | Some (Inr _) \<Rightarrow> Some 0
      | Some (Inl err) \<Rightarrow> (if err = KeyboardInterrupt then Some 130 else Some 1))"

section \<open>Observations and concrete runs\<close>

subsection \<open>Reading a trace\<close>

fun is_probe :: "event \<Rightarrow> bool" where
  "is_probe (E_urlopen u r) = True"
| "is_probe _ = False"

fun is_sleep :: "event \<Rightarrow> bool" where
  "is_sleep (E_sleep d) = True"
| "is_sleep _ = False"

fun is_run :: "event \<Rightarrow> bool" where
  "is_run (E_run cmd kw out) = True"
| "is_run _ = False"

text \<open>
  The earliest time of each probe of a trace that starts at time \<open>t\<close>: a sleep of \<open>d\<close>
  takes at least \<open>d\<close>, everything else at least no time.
\<close>

fun probe_times :: "rat \<Rightarrow> event list \<Rightarrow> rat list" where
  "probe_times t [] = []"
| "probe_times t (E_sleep d # es) = probe_times (t + d) es"
| "probe_times t (E_urlopen u r # es) = t # probe_times t es"
| "probe_times t (ev # es) = probe_times t es"

text \<open>A signal the script itself sends: through the child's handle, or with \<^verbatim>\<open>kill\<close>.\<close>

fun is_signal :: "event \<Rightarrow> bool" where
  "is_signal (E_send_signal n) = True"
| "is_signal (E_run cmd kw out) = (case cmd of [] \<Rightarrow> False | c # cs \<Rightarrow> c = ''kill'')"
| "is_signal _ = False"

fun is_interrupt :: "event \<Rightarrow> bool" where
  "is_interrupt (E_wait w) = (w = Interrupted)"
| "is_interrupt _ = False"

text \<open>
  The comment at lines 104 and 105 says the node receives a ctrl-c itself, the first
  time. So the signals that reach the child while the script waits are the ctrl-c's that
  interrupt a \<^verbatim>\<open>wait()\<close> and the signals the script sends.
\<close>

definition signals_reaching_child :: "event list \<Rightarrow> nat" where
  "signals_reaching_child tr = length (filter is_interrupt tr) + length (filter is_signal tr)"

text \<open>A command run with \<^verbatim>\<open>check=True\<close> succeeds when it exits with code 0.\<close>

definition succeeded :: "run_outcome \<Rightarrow> bool" where
  "succeeded out = (case out of Exec_failed \<Rightarrow> False | Exited rc txt \<Rightarrow> rc = 0)"

definition run_error :: "run_outcome \<Rightarrow> error" where
  "run_error out =
     (case out of Exec_failed \<Rightarrow> FileNotFoundError | Exited rc txt \<Rightarrow> CalledProcessError rc)"

text \<open>The test of line 197 on one state-change record, false where the test raises.\<close>

definition matches_gift :: "pyval \<Rightarrow> bool" where
  "matches_gift c =
     (case py_getitem c ''data'' of
        Inl err \<Rightarrow> False
      | Inr d \<Rightarrow> (case py_get d ''type'' of Inl err \<Rightarrow> False | Inr ty \<Rightarrow> ty = PStr GIFT_TYPE))"

text \<open>A record as the node's API gives it: an object whose \<^verbatim>\<open>data\<close> is an object.\<close>

definition has_data :: "pyval \<Rightarrow> bool" where
  "has_data c =
     (case py_getitem c ''data'' of
        Inl err \<Rightarrow> False
      | Inr d \<Rightarrow> (case d of PDict kvs \<Rightarrow> True | _ \<Rightarrow> False))"

text \<open>The events of \<^verbatim>\<open>fresh_start\<close>, by name.\<close>

definition acct_print :: "string \<Rightarrow> event" where
  "acct_print profile_name =
     E_print [Lit (''[Local] Created account '' @ profile_name @ '' on localnet'')]"

definition init_run :: "args \<Rightarrow> env \<Rightarrow> nat \<Rightarrow> event" where
  "init_run a e k =
     E_run (init_cmd a (snd (ACCOUNTS ! k)) (fst (ACCOUNTS ! k))) DEFAULT_SUBPROCESS_KWARGS
       (run_at e k)"

definition accounts_trace :: "args \<Rightarrow> env \<Rightarrow> event list" where
  "accounts_trace a e =
     [init_run a e 0, acct_print DEPLOYER_PROFILE_NAME,
      init_run a e 1, acct_print PLAYER1_PROFILE_NAME,
      init_run a e 2, acct_print PLAYER2_PROFILE_NAME]"

definition publish_run :: "args \<Rightarrow> env \<Rightarrow> event" where
  "publish_run a e = E_run (publish_cmd a) DEFAULT_SUBPROCESS_KWARGS (run_at e 3)"

definition publish_print :: event where
  "publish_print =
     E_print [Lit (''[Local] Published the '' @ PACKAGE @ '' Move module at '' @ DEPLOYER_ADDRESS)]"

definition gift_run :: "args \<Rightarrow> env \<Rightarrow> event" where
  "gift_run a e = E_run (create_gift_cmd a (now e)) DEFAULT_SUBPROCESS_KWARGS (run_at e 4)"

text \<open>The message of line 89.\<close>

definition CRASH_PRINT :: event where
  "CRASH_PRINT = E_print [Lit ''[Local] Localnet crashed on startup, exiting...'']"

subsection \<open>Concrete runs\<close>

definition args_debug :: args where
  "args_debug =
     \<lparr>debug = True, force_restart = True, offline = False, aptos_cli_path = ''aptos''\<rparr>"

text \<open>The node never answers and has exited with code 0.\<close>

definition env_exit0 :: env where
  "env_exit0 =
     \<lparr>lsof_result = Exited 1 [], kill_result = Exited 0 [], popen_ok = True,
      probe_at = (\<lambda>i. Http_raised), poll_at = (\<lambda>i. Some 0),
      run_at = (\<lambda>k. Exited 0 []), now = 0, txn_response = Http_raised,
      json_decode = (\<lambda>s. None), wait_at = (\<lambda>n. Child_exited 0)\<rparr>"

definition args_fresh :: args where
  "args_fresh =
     \<lparr>debug = False, force_restart = True, offline = False, aptos_cli_path = ''aptos''\<rparr>"

definition args_resume :: args where
  "args_resume =
     \<lparr>debug = False, force_restart = False, offline = False, aptos_cli_path = ''aptos''\<rparr>"

text \<open>What the CLI prints for a transaction, and the node's answer for that transaction.\<close>

definition GIFT_STDOUT :: string where
  \<open>GIFT_STDOUT = ''{"Result": {"transaction_hash": "0xabc", "success": true}}''\<close>

definition TXN_BODY :: string where
  \<open>TXN_BODY = ''{"hash": "0xabc", "changes": []}''\<close>

text \<open>
  The node refuses three probes while it starts, then answers 200; every command
  succeeds and prints the expected JSON document; one ctrl-c arrives while the script
  waits, and the node then exits.
\<close>

definition env_up :: env where
  "env_up =
     \<lparr>lsof_result = Exited 1 [], kill_result = Exited 0 [], popen_ok = True,
      probe_at = (\<lambda>i. if i < 3 then Http_raised else Http_response 200 (Some [])),
      poll_at = (\<lambda>i. None),
      run_at = (\<lambda>k. Exited 0 GIFT_STDOUT), now = 3400000001 / 2,
      txn_response = Http_response 200 (Some TXN_BODY),
      json_decode = (\<lambda>s.
        if s = GIFT_STDOUT
        then Some (PDict [(''Result'',
               PDict [(''transaction_hash'', PStr ''0xabc''), (''success'', PBool True)])])
        else if s = TXN_BODY
        then Some (PDict [(''hash'', PStr ''0xabc''), (''changes'', PList [])])
        else None),
      wait_at = (\<lambda>n. if n = 0 then Interrupted else Child_exited 0)\<rparr>"

text \<open>The node refuses the first probe and has exited with code 1.\<close>

definition env_crash :: env where
  "env_crash =
     \<lparr>lsof_result = Exited 1 [], kill_result = Exited 0 [], popen_ok = True,
      probe_at = (\<lambda>i. Http_raised), poll_at = (\<lambda>i. Some 1),
      run_at = (\<lambda>k. Exited 0 []), now = 0, txn_response = Http_raised,
      json_decode = (\<lambda>s. None), wait_at = (\<lambda>n. Child_exited 1)\<rparr>"

text \<open>As \<open>env_up\<close>, but publishing the module fails with return code 1.\<close>

definition env_publish_fails :: env where
  "env_publish_fails = env_up\<lparr>run_at := (\<lambda>k. if k = 3 then Exited 1 [] else Exited 0 GIFT_STDOUT)\<rparr>"

definition change_coin :: pyval where
  "change_coin =
     PDict [(''address'', PStr ''0x5322''),
            (''data'', PDict [(''type'', PStr ''0x1::coin::CoinStore'')]),
            (''type'', PStr ''write_resource'')]"

definition change_gift_a :: pyval where
  "change_gift_a =
     PDict [(''address'', PStr ''0xaaa''),
            (''data'', PDict [(''type'', PStr GIFT_TYPE)]),
            (''type'', PStr ''write_resource'')]"

definition change_gift_b :: pyval where
  "change_gift_b =
     PDict [(''address'', PStr ''0xbbb''),
            (''data'', PDict [(''type'', PStr GIFT_TYPE)]),
            (''type'', PStr ''write_resource'')]"

section \<open>Auxiliary lemmas\<close>

lemma exec_bind_Inl [simp]: "exec_bind (Inl err, t) f = (Inl err, t)"
  by (simp add: exec_bind_def)

lemma exec_bind_Inr [simp]: "exec_bind (Inr x, t) f = (fst (f x), t @ snd (f x))"
  by (simp add: exec_bind_def split: prod.splits)

lemma fst_exec_bind:
  "fst (exec_bind m f) = (case fst m of Inl err \<Rightarrow> Inl err | Inr x \<Rightarrow> fst (f x))"
  by (cases m; cases "fst m") (auto simp: exec_bind_def split: prod.splits)

lemma snd_exec_bind:
  "snd (exec_bind m f) = (case fst m of Inl err \<Rightarrow> snd m | Inr x \<Rightarrow> snd m @ snd (f x))"
  by (cases m; cases "fst m") (auto simp: exec_bind_def split: prod.splits)

lemma list_all_exec_bind:
  "list_all P (snd m) \<Longrightarrow> (\<And>x. list_all P (snd (f x))) \<Longrightarrow> list_all P (snd (exec_bind m f))"
  by (simp add: snd_exec_bind split: sum.splits)

lemma run_default:
  "run cmd DEFAULT_SUBPROCESS_KWARGS out =
     (if succeeded out then Inr \<lparr>returncode = 0, stdout = None\<rparr> else Inl (run_error out),
      [E_run cmd DEFAULT_SUBPROCESS_KWARGS out])"
  by (simp add: run_def subprocess_run_def DEFAULT_SUBPROCESS_KWARGS_def succeeded_def
      run_error_def split: run_outcome.splits)

subsection \<open>The readiness loop\<close>

lemma probe_times_ge:
  "0 \<le> p \<Longrightarrow> s \<in> set (probe_times t (snd (wait_until_ready p e fuel i))) \<Longrightarrow> t \<le> s"
proof (induction fuel arbitrary: i t)
  case 0
  then show ?case by simp
next
  case (Suc fuel)
  then show ?case
    by (force simp: case_prod_unfold split: http_outcome.splits if_splits)
qed

lemma probe_times_spaced:
  "0 \<le> p \<Longrightarrow>
   sorted_wrt (\<lambda>s s'. s + p \<le> s') (probe_times t (snd (wait_until_ready p e fuel i)))"
proof (induction fuel arbitrary: i t)
  case 0
  then show ?case by simp
next
  case (Suc fuel)
  then show ?case
    by (auto simp: case_prod_unfold probe_times_ge split: http_outcome.splits)
qed

lemma spaced_window:
  "sorted_wrt (\<lambda>s s'. s + p \<le> s') (xs :: rat list) \<Longrightarrow>
   length (filter (\<lambda>s. w \<le> s \<and> s < w + p) xs) \<le> 1"
proof (induction xs)
  case Nil
  then show ?case by simp
next
  case (Cons x xs)
  show ?case
  proof (cases "w \<le> x \<and> x < w + p")
    case True
    have later: "\<forall>y\<in>set xs. x + p \<le> y"
      using Cons.prems by simp
    have "\<forall>y\<in>set xs. \<not> y < w + p"
    proof
      fix y assume "y \<in> set xs"
      with later have "x + p \<le> y" by blast
      with True show "\<not> y < w + p" by linarith
    qed
    then have "filter (\<lambda>s. w \<le> s \<and> s < w + p) xs = []"
      by (simp add: filter_empty_conv)
    with True show ?thesis by simp
  next
    case False
    with Cons show ?thesis by auto
  qed
qed

lemma loop_continues:
  "(\<And>j. i \<le> j \<Longrightarrow> j < i + n \<Longrightarrow>
      (\<forall>b. probe_at e j \<noteq> Http_response 200 b) \<and> poll_at e j = None) \<Longrightarrow>
   fst (wait_until_ready p e n i) = None
   \<and> length (filter is_probe (snd (wait_until_ready p e n i))) = n
   \<and> length (filter is_sleep (snd (wait_until_ready p e n i))) = n"
proof (induction n arbitrary: i)
  case 0
  then show ?case by simp
next
  case (Suc n)
  have here: "(\<forall>b. probe_at e i \<noteq> Http_response 200 b) \<and> poll_at e i = None"
    using Suc.prems [of i] by simp
  have rest: "fst (wait_until_ready p e n (Suc i)) = None
   \<and> length (filter is_probe (snd (wait_until_ready p e n (Suc i)))) = n
   \<and> length (filter is_sleep (snd (wait_until_ready p e n (Suc i)))) = n"
    using Suc.prems by (intro Suc.IH) simp_all
  from here rest show ?case
    by (auto simp: case_prod_unfold truthy_rc_def split: http_outcome.splits)
qed

subsection \<open>The search for the gift\<close>

lemma find_gift_prints: "list_all (\<lambda>ev. \<exists>v. ev = E_print [Val v]) (snd (find_gift cs))"
  by (induction cs) (auto simp: case_prod_unfold split: sum.splits)

lemma find_gift_first:
  "\<forall>x\<in>set (takeWhile (\<lambda>x. \<not> matches_gift x) cs). has_data x \<Longrightarrow>
   fst (find_gift cs) =
     (case find matches_gift cs of
        None \<Rightarrow> Inr None
      | Some c \<Rightarrow>
          (case py_getitem c ''address'' of Inl err \<Rightarrow> Inl err | Inr addr \<Rightarrow> Inr (Some addr)))"
proof (induction cs)
  case Nil
  then show ?case by simp
next
  case (Cons c cs)
  show ?case
  proof (cases "matches_gift c")
    case True
    then show ?thesis
      by (auto simp: matches_gift_def split: sum.splits)
  next
    case False
    with Cons.prems have "has_data c"
      and rest: "\<forall>x\<in>set (takeWhile (\<lambda>x. \<not> matches_gift x) cs). has_data x"
      by simp_all
    from \<open>has_data c\<close> obtain kvs where d: "py_getitem c ''data'' = Inr (PDict kvs)"
      by (auto simp: has_data_def split: sum.splits pyval.splits)
    from False d have "py_get (PDict kvs) ''type'' \<noteq> Inr (PStr GIFT_TYPE)"
      by (auto simp: matches_gift_def)
    with d False Cons.IH [OF rest] show ?thesis
      by (auto simp: case_prod_unfold py_get_def split: sum.splits)
  qed
qed

lemma find_gift_no_match:
  "find matches_gift cs = None \<Longrightarrow> fst (find_gift cs) \<noteq> Inr (Some addr)"
proof (induction cs)
  case Nil
  then show ?case by simp
next
  case (Cons c cs)
  then have c: "\<not> matches_gift c" and cs: "find matches_gift cs = None"
    by (simp_all split: if_splits)
  have ih: "fst (find_gift cs) \<noteq> Inr (Some addr)"
    using Cons.IH [OF cs] .
  have "py_getitem c ''data'' = Inr d \<Longrightarrow> py_get d ''type'' = Inr ty \<Longrightarrow> ty \<noteq> PStr GIFT_TYPE"
    for d ty
    using c by (auto simp: matches_gift_def)
  with ih show ?case
    by (auto simp: case_prod_unfold split: sum.splits)
qed

lemma fst_resolve:
  "fst (resolve_gift_address cs) =
     (case fst (find_gift cs) of
        Inl err \<Rightarrow> Inl err
      | Inr None \<Rightarrow> Inl UnboundLocalError
      | Inr (Some addr) \<Rightarrow> Inr addr)"
  by (simp add: resolve_gift_address_def fst_exec_bind lift_def emit_def ret_def
      split: sum.splits option.splits)

lemma snd_resolve_prints: "list_all (\<lambda>ev. \<not> is_run ev) (snd (resolve_gift_address cs))"
proof -
  have "list_all (\<lambda>ev. \<not> is_run ev) (snd (find_gift cs))"
    using find_gift_prints [of cs] by (auto simp: list_all_iff)
  then show ?thesis
    unfolding resolve_gift_address_def
    by (rule list_all_exec_bind) (simp add: lift_def emit_def ret_def split: option.splits)
qed

subsection \<open>Sums of doubles\<close>

lemma ilog2_nonneg: "0 \<le> ilog2 n"
  by (induction n rule: ilog2.induct) (subst ilog2.simps, simp)

lemma ilog2_le: "n < 2 ^ Suc j \<Longrightarrow> ilog2 n \<le> int j"
proof (induction j arbitrary: n)
  case 0
  then show ?case by (subst ilog2.simps) simp
next
  case (Suc j)
  show ?case
  proof (cases "n < 2")
    case True
    then show ?thesis by (subst ilog2.simps) simp
  next
    case False
    from Suc.prems have "n div 2 < 2 ^ Suc j"
      by simp
    then have "ilog2 (n div 2) \<le> int j"
      by (rule Suc.IH)
    with False show ?thesis
      by (subst ilog2.simps) simp
  qed
qed

lemma float_exponent_le:
  assumes "0 < x" and "x < 2 ^ 53"
  shows "float_exponent x \<le> 52"
proof (cases "1 \<le> x")
  case True
  from assms(2) have "\<lfloor>x\<rfloor> < 2 ^ Suc 52"
    by (simp add: floor_less_iff)
  then have "ilog2 \<lfloor>x\<rfloor> \<le> int 52"
    by (rule ilog2_le)
  with True show ?thesis
    by (simp add: float_exponent_def)
next
  case False
  with ilog2_nonneg [of "\<lceil>1 / x\<rceil> - 1"] show ?thesis
    by (simp add: float_exponent_def)
qed

lemma round_half_even_bounds: "\<lfloor>y\<rfloor> \<le> round_half_even y \<and> round_half_even y \<le> \<lceil>y\<rceil>"
proof (cases "y = of_int \<lfloor>y\<rfloor>")
  case True
  then have "y - of_int \<lfloor>y\<rfloor> < 1 / 2"
    by simp
  then have "round_half_even y = \<lfloor>y\<rfloor>"
    by (simp add: round_half_even_def)
  then show ?thesis
    by (simp add: floor_le_ceiling)
next
  case False
  then have "\<lceil>y\<rceil> = \<lfloor>y\<rfloor> + 1"
    by (simp add: ceiling_altdef)
  then show ?thesis
    by (simp add: round_half_even_def)
qed

lemma round_double_bracket:
  assumes "0 \<le> x" and "x < 2 ^ 53"
  shows "of_int \<lfloor>x\<rfloor> \<le> round_double x \<and> round_double x \<le> of_int \<lceil>x\<rceil>"
proof (cases "x = 0")
  case True
  then show ?thesis by (simp add: round_double_def)
next
  case False
  with assms have pos: "0 < x" by simp
  define e where "e = max (float_exponent x - 52) (- 1074)"
  define N :: int where "N = 2 ^ nat (- e)"
  have "e \<le> 0"
    using float_exponent_le [OF pos assms(2)] pos by (simp add: e_def)
  then have p: "pow2 e = 1 / of_int N"
    by (cases "e = 0") (simp_all add: pow2_def N_def)
  have N: "0 < N"
    by (simp add: N_def)
  let ?y = "x * of_int N"
  have rd: "round_double x = of_int (round_half_even ?y) / of_int N"
    using pos by (simp add: round_double_def e_def [symmetric] p)
  have "(of_int (\<lfloor>x\<rfloor> * N) :: rat) \<le> ?y"
    using N by (simp add: mult_right_mono)
  then have "\<lfloor>x\<rfloor> * N \<le> \<lfloor>?y\<rfloor>"
    by (simp only: le_floor_iff)
  with round_half_even_bounds [of ?y] have lo: "\<lfloor>x\<rfloor> * N \<le> round_half_even ?y"
    by linarith
  have "?y \<le> (of_int (\<lceil>x\<rceil> * N) :: rat)"
    using N by (simp add: mult_right_mono)
  then have "\<lceil>?y\<rceil> \<le> \<lceil>x\<rceil> * N"
    by (simp only: ceiling_le_iff)
  with round_half_even_bounds [of ?y] have hi: "round_half_even ?y \<le> \<lceil>x\<rceil> * N"
    by linarith
  from lo have "(of_int (\<lfloor>x\<rfloor> * N) :: rat) \<le> of_int (round_half_even ?y)"
    by (simp only: of_int_le_iff)
  then have 1: "of_int \<lfloor>x\<rfloor> \<le> round_double x"
    using N by (simp add: rd pos_le_divide_eq)
  from hi have "(of_int (round_half_even ?y) :: rat) \<le> of_int (\<lceil>x\<rceil> * N)"
    by (simp only: of_int_le_iff)
  then have 2: "round_double x \<le> of_int \<lceil>x\<rceil>"
    using N by (simp add: rd pos_divide_le_eq)
  from 1 2 show ?thesis ..
qed

lemma expiry_bracket:
  assumes "0 \<le> t" and "t + 1800 < 2 ^ 53"
  shows "\<lfloor>t\<rfloor> + 1800 \<le> py_int (float_add t (of_int (60 * 30)))
    \<and> py_int (float_add t (of_int (60 * 30))) \<le> \<lceil>t\<rceil> + 1800"
proof -
  let ?r = "round_double (t + 1800)"
  from assms have x: "0 \<le> t + 1800" by simp
  note b = round_double_bracket [OF x assms(2)]
  have fl: "\<lfloor>t + 1800\<rfloor> = \<lfloor>t\<rfloor> + 1800" and ce: "\<lceil>t + 1800\<rceil> = \<lceil>t\<rceil> + 1800"
    by simp_all
  from assms(1) have "0 \<le> \<lfloor>t\<rfloor>" by simp
  then have "(0 :: rat) \<le> of_int \<lfloor>t + 1800\<rfloor>"
    by (simp add: fl)
  with b have "0 \<le> ?r"
    by linarith
  then have pi: "py_int ?r = \<lfloor>?r\<rfloor>"
    by (simp add: py_int_def)
  from b have "\<lfloor>t + 1800\<rfloor> \<le> \<lfloor>?r\<rfloor>"
    by (simp only: le_floor_iff)
  moreover have "\<lfloor>?r\<rfloor> \<le> \<lceil>t + 1800\<rceil>"
  proof -
    have "of_int \<lfloor>?r\<rfloor> \<le> ?r" by simp
    with b have "(of_int \<lfloor>?r\<rfloor> :: rat) \<le> of_int \<lceil>t + 1800\<rceil>" by linarith
    then show ?thesis by (simp only: of_int_le_iff)
  qed
  ultimately show ?thesis
    by (simp add: float_add_def pi fl ce)
qed

text \<open>
  Three clock values. At the first the sum is exact; at the other two it lies less than
  half a unit of the last place below a whole number and rounds up to it.
\<close>

lemma expiry_at_half: "py_int (float_add (3400000001 / 2) 1800) = 1700001800"
  by code_simp

lemma expiry_rounds_up_2038: "py_int (float_add (2 ^ 31 - 1 / 2 ^ 22) 1800) = 2147485448"
  by code_simp

lemma expiry_rounds_up_below_one: "py_int (float_add (1 - 1 / 2 ^ 53) 1800) = 1801"
  by code_simp

subsection \<open>The steps of \<^verbatim>\<open>fresh_start\<close>\<close>

lemma create_accounts_ACCOUNTS:
  "create_accounts a e 0 ACCOUNTS =
     (if \<not> succeeded (run_at e 0) then (Inl (run_error (run_at e 0)), [init_run a e 0])
      else if \<not> succeeded (run_at e 1) then
        (Inl (run_error (run_at e 1)),
         [init_run a e 0, acct_print DEPLOYER_PROFILE_NAME, init_run a e 1])
      else if \<not> succeeded (run_at e 2) then
        (Inl (run_error (run_at e 2)),
         [init_run a e 0, acct_print DEPLOYER_PROFILE_NAME,
          init_run a e 1, acct_print PLAYER1_PROFILE_NAME, init_run a e 2])
      else
        (Inr (),
         [init_run a e 0, acct_print DEPLOYER_PROFILE_NAME,
          init_run a e 1, acct_print PLAYER1_PROFILE_NAME,
          init_run a e 2, acct_print PLAYER2_PROFILE_NAME]))"
  by (simp add: ACCOUNTS_def run_default acct_print_def init_run_def numeral_2_eq_2)

lemma get_txn_data_uncaptured:
  "get_txn_data e \<lparr>returncode = rc, stdout = None\<rparr> = (Inl TypeError, [E_print [Val PNone]])"
  by (simp add: get_txn_data_def emit_def lift_def json_loads_def stdout_val_def)

lemma fresh_start_steps:
  "fresh_start a e =
     (if \<not> succeeded (run_at e 0) then
        (Inl (run_error (run_at e 0)), E_enter_fresh_start # take 1 (accounts_trace a e))
      else if \<not> succeeded (run_at e 1) then
        (Inl (run_error (run_at e 1)), E_enter_fresh_start # take 3 (accounts_trace a e))
      else if \<not> succeeded (run_at e 2) then
        (Inl (run_error (run_at e 2)), E_enter_fresh_start # take 5 (accounts_trace a e))
      else if \<not> succeeded (run_at e 3) then
        (Inl (run_error (run_at e 3)),
         E_enter_fresh_start # accounts_trace a e @ [publish_run a e])
      else if \<not> succeeded (run_at e 4) then
        (Inl (run_error (run_at e 4)),
         E_enter_fresh_start # accounts_trace a e @ [publish_run a e, publish_print, gift_run a e])
      else
        (Inl TypeError,
         E_enter_fresh_start # accounts_trace a e
           @ [publish_run a e, publish_print, gift_run a e, E_print [Val PNone]]))"
  by (simp add: fresh_start_def create_accounts_ACCOUNTS emit_def run_default
      get_txn_data_uncaptured accounts_trace_def publish_run_def publish_print_def gift_run_def)

subsection \<open>The traces of \<^verbatim>\<open>main\<close>\<close>

lemma kill_no_enter: "E_enter_fresh_start \<notin> set (snd (kill_process_at_port e port))"
  by (auto simp: kill_process_at_port_def run_def emit_def lift_def ret_def snd_exec_bind
      fst_exec_bind split: sum.splits option.splits if_splits)

lemma launch_no_enter: "E_enter_fresh_start \<notin> set (snd (launch a e))"
  using kill_no_enter [of e 8080]
  by (auto simp: launch_def emit_def lift_def ret_def snd_exec_bind fst_exec_bind
      split: sum.splits if_splits)

lemma loop_no_enter: "E_enter_fresh_start \<notin> set (snd (wait_until_ready p e fuel i))"
  by (induction fuel arbitrary: i)
    (auto simp: case_prod_unfold split: http_outcome.splits)

lemma loop_ready_probe:
  "fst (wait_until_ready p e fuel i) = Some Ready \<Longrightarrow>
   \<exists>b. E_urlopen READY_URL (Http_response 200 b) \<in> set (snd (wait_until_ready p e fuel i))"
  by (induction fuel arbitrary: i)
    (auto simp: case_prod_unfold split: http_outcome.splits if_splits)

lemma loop_crashed_last:
  "fst (wait_until_ready p e fuel i) = Some Crashed \<Longrightarrow>
   snd (wait_until_ready p e fuel i) \<noteq> [] \<and> last (snd (wait_until_ready p e fuel i)) = CRASH_PRINT"
proof (induction fuel arbitrary: i)
  case 0
  then show ?case by simp
next
  case (Suc fuel)
  then show ?case
    by (auto simp: case_prod_unfold CRASH_PRINT_def split: http_outcome.splits if_splits)
qed

lemma wait_no_enter: "E_enter_fresh_start \<notin> set (snd (wait_for_exit e))"
  by (auto simp: wait_for_exit_def split: wait_outcome.splits)

lemma fresh_start_fails: "\<exists>err. fst (fresh_start a e) = Inl err"
  by (simp add: fresh_start_steps)

lemma fresh_start_enters_once:
  "count_list (snd (fresh_start a e)) E_enter_fresh_start = 1"
  by (simp add: fresh_start_steps accounts_trace_def init_run_def acct_print_def
      publish_run_def publish_print_def gift_run_def)

lemma after_ready_eq:
  "after_ready a e =
     (if force_restart a
      then (Some (fst (fresh_start a e)),
            E_print [Lit ''[Local] Localnet came up!''] # snd (fresh_start a e))
      else (fst (wait_for_exit e),
            E_print [Lit ''[Local] Localnet came up!'']
            # E_print [Lit ''[Local] Setup complete, localnet is ready and running'']
            # snd (wait_for_exit e)))"
  using fresh_start_fails [of a e]
  by (auto simp: after_ready_def ret_def split: prod.splits sum.splits)

lemma main_eq:
  "main a e fuel =
     (case fst (launch a e) of
        Inl err \<Rightarrow> (Some (Inl err), snd (launch a e))
      | Inr u \<Rightarrow>
          (case fst (wait_until_ready (1 / 4) e fuel 0) of
             None \<Rightarrow> (None, snd (launch a e) @ snd (wait_until_ready (1 / 4) e fuel 0))
           | Some Crashed \<Rightarrow>
               (Some (Inr ()), snd (launch a e) @ snd (wait_until_ready (1 / 4) e fuel 0))
           | Some Ready \<Rightarrow>
               (fst (after_ready a e),
                snd (launch a e) @ snd (wait_until_ready (1 / 4) e fuel 0)
                @ snd (after_ready a e))))"
  by (simp add: main_def split: prod.splits sum.splits option.splits ready_outcome.splits)

lemma split_at_absent:
  "ev \<notin> set xs \<Longrightarrow> xs @ ys = pre @ ev # post \<Longrightarrow> \<exists>zs. pre = xs @ zs"
  by (auto simp: append_eq_append_conv2 append_eq_Cons_conv)

lemma launch_plain:
  "lsof_result e = Exited rc [] \<Longrightarrow> popen_ok e \<Longrightarrow> \<not> debug a \<Longrightarrow> fst (launch a e) = Inr ()"
  by (simp add: launch_def kill_process_at_port_def run_def subprocess_run_def lift_def ret_def
      emit_def splitlines_def)

lemma run_error_status: "exit_status (Some (Inl (run_error out))) = Some 1"
  by (simp add: exit_status_def run_error_def split: run_outcome.splits)

lemma fresh_start_aborts:
  assumes "k \<le> 4" and "\<forall>j<k. succeeded (run_at e j)" and "\<not> succeeded (run_at e k)"
  shows "fst (fresh_start a e) = Inl (run_error (run_at e k))
    \<and> length (filter is_run (snd (fresh_start a e))) = Suc k"
proof -
  from assms(1) consider "k = 0" | "k = 1" | "k = 2" | "k = 3" | "k = 4"
    by linarith
  then show ?thesis
  proof cases
    case 1
    with assms show ?thesis
      by (simp add: fresh_start_steps accounts_trace_def init_run_def)
  next
    case 2
    with assms show ?thesis
      by (simp add: fresh_start_steps accounts_trace_def init_run_def acct_print_def)
  next
    case 3
    with assms have "succeeded (run_at e 0)" "succeeded (run_at e 1)" "\<not> succeeded (run_at e 2)"
      by simp_all
    with 3 show ?thesis
      by (simp add: fresh_start_steps accounts_trace_def init_run_def acct_print_def)
  next
    case 4
    with assms have "succeeded (run_at e 0)" "succeeded (run_at e 1)" "succeeded (run_at e 2)"
      "\<not> succeeded (run_at e 3)"
      by simp_all
    with 4 show ?thesis
      by (simp add: fresh_start_steps accounts_trace_def init_run_def acct_print_def
          publish_run_def)
  next
    case 5
    with assms have "succeeded (run_at e 0)" "succeeded (run_at e 1)" "succeeded (run_at e 2)"
      "succeeded (run_at e 3)" "\<not> succeeded (run_at e 4)"
      by simp_all
    with 5 show ?thesis
      by (simp add: fresh_start_steps accounts_trace_def init_run_def acct_print_def
          publish_run_def publish_print_def gift_run_def)
  qed
qed

lemma loop_up: "fst (wait_until_ready p env_up 5 0) = Some Ready"
  by (simp add: env_up_def eval_nat_numeral truthy_rc_def)

lemma loop_crash: "fst (wait_until_ready p env_crash 1 0) = Some Crashed"
  by (simp add: env_crash_def truthy_rc_def)

lemma launch_up: "fst (launch a env_up) = (if debug a then Inl AttributeError else Inr ())"
  by (simp add: launch_def kill_process_at_port_def run_def subprocess_run_def lift_def ret_def
      emit_def env_up_def splitlines_def module_getattr_def logging_module_names_def)

section \<open>The claims\<close>

text \<open>
  C1. The claim: whenever the readiness loop leaves through a 200 response,
  \<^verbatim>\<open>fresh_start\<close> runs exactly once afterwards. The script calls it under
  \<^verbatim>\<open>if args.force_restart\<close>: a run without that option that becomes ready never
  calls it.
\<close>

theorem resume_run_skips_fresh_start:
  "fst (launch args_resume env_up) = Inr ()
   \<and> fst (wait_until_ready (1 / 4) env_up 5 0) = Some Ready
   \<and> count_list (snd (main args_resume env_up 5)) E_enter_fresh_start = 0"
proof -
  have h: "fst (launch args_resume env_up) = Inr ()"
    "fst (wait_until_ready (1 / 4) env_up 5 0) = Some Ready"
    "\<not> force_restart args_resume"
    by (simp_all add: launch_up loop_up args_resume_def)
  then show ?thesis
    using launch_no_enter [of args_resume env_up] loop_no_enter [of "1 / 4" env_up 5 0]
      wait_no_enter [of env_up]
    by (simp add: main_eq after_ready_eq count_list_0_iff)
qed

text \<open>
  C1, as the script has it. In every run a call of \<^verbatim>\<open>fresh_start\<close> comes after a probe
  that was answered with status 200; and in a run whose readiness loop leaves through a
  200 response \<^verbatim>\<open>fresh_start\<close> is called exactly once with the force-restart option and
  not at all without it.
\<close>

theorem fresh_start_after_ready:
  "(\<forall>pre post. snd (main a e fuel) = pre @ E_enter_fresh_start # post \<longrightarrow>
      (\<exists>b. E_urlopen READY_URL (Http_response 200 b) \<in> set pre))
   \<and> (fst (launch a e) = Inr () \<and> fst (wait_until_ready (1 / 4) e fuel 0) = Some Ready \<longrightarrow>
        count_list (snd (main a e fuel)) E_enter_fresh_start = (if force_restart a then 1 else 0))"
proof (intro conjI allI impI)
  fix pre post
  assume tr: "snd (main a e fuel) = pre @ E_enter_fresh_start # post"
  let ?L = "snd (launch a e)" and ?W = "snd (wait_until_ready (1 / 4) e fuel 0)"
  have absent: "E_enter_fresh_start \<notin> set (?L @ ?W)"
    using launch_no_enter [of a e] loop_no_enter [of "1 / 4" e fuel 0] by simp
  have present: "E_enter_fresh_start \<in> set (snd (main a e fuel))"
    using tr by simp
  have ready: "fst (wait_until_ready (1 / 4) e fuel 0) = Some Ready"
    and shape: "snd (main a e fuel) = (?L @ ?W) @ snd (after_ready a e)"
    using present absent
    by (auto simp: main_eq split: sum.splits option.splits ready_outcome.splits)
  from shape tr have "(?L @ ?W) @ snd (after_ready a e) = pre @ E_enter_fresh_start # post"
    by simp
  from split_at_absent [OF absent this] obtain zs where "pre = (?L @ ?W) @ zs" ..
  with loop_ready_probe [OF ready]
  show "\<exists>b. E_urlopen READY_URL (Http_response 200 b) \<in> set pre"
    by auto
next
  assume "fst (launch a e) = Inr () \<and> fst (wait_until_ready (1 / 4) e fuel 0) = Some Ready"
  then show "count_list (snd (main a e fuel)) E_enter_fresh_start = (if force_restart a then 1 else 0)"
    using launch_no_enter [of a e] loop_no_enter [of "1 / 4" e fuel 0] wait_no_enter [of e]
      fresh_start_enters_once [of a e]
    by (simp add: main_eq after_ready_eq count_list_0_iff)
qed

theorem fresh_start_after_ready_witness:
  "fst (launch args_fresh env_up) = Inr ()
   \<and> fst (wait_until_ready (1 / 4) env_up 5 0) = Some Ready
   \<and> count_list (snd (main args_fresh env_up 5)) E_enter_fresh_start = 1"
proof -
  have h: "fst (launch args_fresh env_up) = Inr ()"
    "fst (wait_until_ready (1 / 4) env_up 5 0) = Some Ready"
    "force_restart args_fresh"
    by (simp_all add: launch_up loop_up args_fresh_def)
  show ?thesis
    using fresh_start_after_ready [of args_fresh env_up 5] h by simp
qed

text \<open>
  C2. The claim: when the node process has exited before any probe succeeds, the loop
  ends, reports the crash and probes no more, whatever the exit code. The script tests
  \<^verbatim>\<open>if local_testnet_handle.poll():\<close>, and an exit code 0 is false there. With a node that
  refuses every probe and has exited with code 0 the loop is still running after any
  number \<open>n\<close> of iterations: it has made \<open>n\<close> probes, seen the exit code \<open>n\<close> times and
  reported nothing.
\<close>

theorem exited_zero_keeps_polling:
  "wait_until_ready p env_exit0 n i =
     (None, concat (replicate n [E_urlopen READY_URL Http_raised, E_poll (Some 0), E_sleep p]))"
  by (induction n arbitrary: i) (simp_all add: env_exit0_def truthy_rc_def)

text \<open>
  C3. Address resolution takes the address of the first state-change record whose
  \<^verbatim>\<open>data.type\<close> is the Gift type qualified with the deployer's address, the records
  before it being objects with a \<^verbatim>\<open>data\<close> object; when no record matches it fails,
  whatever other records there are, and no claim transaction is run.
\<close>

theorem gift_address_resolution:
  "(find matches_gift cs = None \<longrightarrow>
      (\<exists>err. fst (resolve_gift_address cs) = Inl err)
      \<and> (\<exists>err. fst (resolve_and_snatch a e cs) = Inl err)
      \<and> filter is_run (snd (resolve_and_snatch a e cs)) = [])
   \<and> ((\<forall>x\<in>set (takeWhile (\<lambda>x. \<not> matches_gift x) cs). has_data x) \<longrightarrow>
        fst (resolve_gift_address cs) =
          (case find matches_gift cs of
             None \<Rightarrow> Inl UnboundLocalError
           | Some c \<Rightarrow> py_getitem c ''address''))"
proof (intro conjI impI)
  assume none: "find matches_gift cs = None"
  have "\<forall>addr. fst (find_gift cs) \<noteq> Inr (Some addr)"
    using find_gift_no_match [OF none] by simp
  then show fails: "\<exists>err. fst (resolve_gift_address cs) = Inl err"
    by (auto simp: fst_resolve split: sum.splits option.splits)
  then show "\<exists>err. fst (resolve_and_snatch a e cs) = Inl err"
    by (auto simp: resolve_and_snatch_def fst_exec_bind)
  from fails show "filter is_run (snd (resolve_and_snatch a e cs)) = []"
    using snd_resolve_prints [of cs]
    by (auto simp: resolve_and_snatch_def snd_exec_bind filter_empty_conv list_all_iff)
next
  assume "\<forall>x\<in>set (takeWhile (\<lambda>x. \<not> matches_gift x) cs). has_data x"
  then show "fst (resolve_gift_address cs) =
          (case find matches_gift cs of
             None \<Rightarrow> Inl UnboundLocalError
           | Some c \<Rightarrow> py_getitem c ''address'')"
    by (simp add: fst_resolve find_gift_first split: option.splits sum.splits)
qed

theorem gift_address_resolution_witness:
  "fst (resolve_gift_address [change_coin, change_gift_a, change_gift_b]) = Inr (PStr ''0xaaa'')
   \<and> fst (resolve_gift_address [change_coin]) = Inl UnboundLocalError
   \<and> filter is_run (snd (resolve_and_snatch args_debug env_up [change_coin])) = []"
proof -
  have coin: "\<not> matches_gift change_coin" "has_data change_coin"
    by (simp_all add: matches_gift_def has_data_def change_coin_def py_getitem_def py_get_def
        GIFT_TYPE_def DEPLOYER_ADDRESS_def)
  have gift: "matches_gift change_gift_a"
    "py_getitem change_gift_a ''address'' = Inr (PStr ''0xaaa'')"
    by (simp_all add: matches_gift_def change_gift_a_def py_getitem_def py_get_def)
  show ?thesis
    using gift_address_resolution [of "[change_coin, change_gift_a, change_gift_b]" args_debug env_up]
      gift_address_resolution [of "[change_coin]" args_debug env_up] coin gift
    by simp
qed

text \<open>
  C4. The gift is created with the deployer's profile and the arguments: 4 shares, the
  expiry \<^verbatim>\<open>int(time.time() + 60 * 30)\<close>, the amount 10000000 for each share, an empty
  public key and keyless-only false. The expiry is the current time plus 1800 seconds as
  a whole number: the sum of doubles lies between the time rounded down and the time
  rounded up, plus 1800, for a time that is not negative (and below \<open>2\<^sup>5\<^sup>3\<close>). The command is
  run once the three accounts are made and the module is published.
\<close>

theorem gift_creation_arguments:
  "create_gift_cmd a t =
     [aptos_cli_path a, ''move'', ''run'', ''--assume-yes'', ''--profile'', ''deployer'',
      ''--function-id'', ''deployer::hongbao::create_gift_coin'',
      ''--type-args'', ''0x1::aptos_coin::AptosCoin'', ''--args'',
      ''u64:4'', ''u64:'' @ py_str_int (py_int (float_add t 1800)), ''u64:10000000'', ''u8:[]'',
      ''bool:false'']
   \<and> (0 \<le> t \<and> t + 1800 < 2 ^ 53 \<longrightarrow>
        \<lfloor>t\<rfloor> + 1800 \<le> py_int (float_add t 1800)
        \<and> py_int (float_add t 1800) \<le> \<lceil>t\<rceil> + 1800)
   \<and> ((\<forall>k<4. succeeded (run_at e k)) \<longrightarrow>
        E_run (create_gift_cmd a (now e)) DEFAULT_SUBPROCESS_KWARGS (run_at e 4)
          \<in> set (snd (fresh_start a e)))"
proof (intro conjI impI)
  show "create_gift_cmd a t =
     [aptos_cli_path a, ''move'', ''run'', ''--assume-yes'', ''--profile'', ''deployer'',
      ''--function-id'', ''deployer::hongbao::create_gift_coin'',
      ''--type-args'', ''0x1::aptos_coin::AptosCoin'', ''--args'',
      ''u64:4'', ''u64:'' @ py_str_int (py_int (float_add t 1800)), ''u64:10000000'', ''u8:[]'',
      ''bool:false'']"
    by (simp add: create_gift_cmd_def DEPLOYER_PROFILE_NAME_def HONGBAO_MODULE_def
        py_str_int_def digit_char_def)
  show "\<lfloor>t\<rfloor> + 1800 \<le> py_int (float_add t 1800)"
    and "py_int (float_add t 1800) \<le> \<lceil>t\<rceil> + 1800"
    if "0 \<le> t \<and> t + 1800 < 2 ^ 53"
    using that expiry_bracket [of t] by simp_all
  show "E_run (create_gift_cmd a (now e)) DEFAULT_SUBPROCESS_KWARGS (run_at e 4)
          \<in> set (snd (fresh_start a e))" if "\<forall>k<4. succeeded (run_at e k)"
  proof -
    from that have "succeeded (run_at e 0)" "succeeded (run_at e 1)" "succeeded (run_at e 2)"
      "succeeded (run_at e 3)"
      by simp_all
    then show ?thesis
      by (simp add: fresh_start_steps gift_run_def)
  qed
qed

theorem gift_creation_arguments_witness:
  "0 \<le> now env_up \<and> now env_up + 1800 < 2 ^ 53
   \<and> create_gift_cmd args_fresh (now env_up) =
     [''aptos'', ''move'', ''run'', ''--assume-yes'', ''--profile'', ''deployer'',
      ''--function-id'', ''deployer::hongbao::create_gift_coin'',
      ''--type-args'', ''0x1::aptos_coin::AptosCoin'', ''--args'',
      ''u64:4'', ''u64:1700001800'', ''u64:10000000'', ''u8:[]'', ''bool:false'']
   \<and> \<lfloor>now env_up\<rfloor> + 1800 \<le> py_int (float_add (now env_up) 1800)
   \<and> py_int (float_add (now env_up) 1800) \<le> \<lceil>now env_up\<rceil> + 1800
   \<and> E_run (create_gift_cmd args_fresh (now env_up)) DEFAULT_SUBPROCESS_KWARGS (run_at env_up 4)
       \<in> set (snd (fresh_start args_fresh env_up))"
proof -
  have n: "now env_up = 3400000001 / 2"
    by (simp add: env_up_def)
  have t: "0 \<le> now env_up \<and> now env_up + 1800 < 2 ^ 53"
    by (simp add: n)
  have ok: "\<forall>k<4. succeeded (run_at env_up k)"
    by (simp add: env_up_def succeeded_def)
  have expiry: "py_str_int (py_int (float_add (now env_up) 1800)) = ''1700001800''"
    by (simp add: n expiry_at_half py_str_int_def digit_char_def)
  have cli: "aptos_cli_path args_fresh = ''aptos''"
    by (simp add: args_fresh_def)
  note inst = gift_creation_arguments [of args_fresh "now env_up" env_up]
  from inst t have bracket:
    "\<lfloor>now env_up\<rfloor> + 1800 \<le> py_int (float_add (now env_up) 1800)
     \<and> py_int (float_add (now env_up) 1800) \<le> \<lceil>now env_up\<rceil> + 1800"
    by blast
  from inst ok have submitted:
    "E_run (create_gift_cmd args_fresh (now env_up)) DEFAULT_SUBPROCESS_KWARGS (run_at env_up 4)
       \<in> set (snd (fresh_start args_fresh env_up))"
    by blast
  from inst have "create_gift_cmd args_fresh (now env_up) =
     [aptos_cli_path args_fresh, ''move'', ''run'', ''--assume-yes'', ''--profile'', ''deployer'',
      ''--function-id'', ''deployer::hongbao::create_gift_coin'',
      ''--type-args'', ''0x1::aptos_coin::AptosCoin'', ''--args'',
      ''u64:4'', ''u64:'' @ py_str_int (py_int (float_add (now env_up) 1800)), ''u64:10000000'',
      ''u8:[]'', ''bool:false'']"
    by blast
  then have "create_gift_cmd args_fresh (now env_up) =
     [''aptos'', ''move'', ''run'', ''--assume-yes'', ''--profile'', ''deployer'',
      ''--function-id'', ''deployer::hongbao::create_gift_coin'',
      ''--type-args'', ''0x1::aptos_coin::AptosCoin'', ''--args'',
      ''u64:4'', ''u64:1700001800'', ''u64:10000000'', ''u8:[]'', ''bool:false'']"
    by (simp add: expiry cli)
  with t bracket submitted show ?thesis
    by blast
qed

text \<open>
  C5. The claim: the transaction hash is read from the captured output of the gift
  creation and the transaction is fetched by it. \<^verbatim>\<open>DEFAULT_SUBPROCESS_KWARGS\<close> has no
  \<^verbatim>\<open>capture_output\<close> (the \<^verbatim>\<open>lsof\<close> call of \<^verbatim>\<open>kill_process_at_port\<close> has it), so
  \<^verbatim>\<open>result.stdout\<close> is \<open>None\<close> whatever the CLI printed: \<^verbatim>\<open>json.loads\<close> raises
  TypeError and the node is never asked for the transaction.
\<close>

theorem gift_stdout_not_captured:
  "(\<forall>k<5. succeeded (run_at e k)) \<Longrightarrow>
   subprocess_run DEFAULT_SUBPROCESS_KWARGS (run_at e 4) = Inr \<lparr>returncode = 0, stdout = None\<rparr>
   \<and> json_loads e None = Inl TypeError
   \<and> fst (fresh_start a e) = Inl TypeError
   \<and> filter is_probe (snd (fresh_start a e)) = []"
proof -
  assume all: "\<forall>k<5. succeeded (run_at e k)"
  then have ok: "succeeded (run_at e 0)" "succeeded (run_at e 1)" "succeeded (run_at e 2)"
    "succeeded (run_at e 3)" "succeeded (run_at e 4)"
    by simp_all
  have "subprocess_run DEFAULT_SUBPROCESS_KWARGS (run_at e 4) = Inr \<lparr>returncode = 0, stdout = None\<rparr>"
    using ok(5)
    by (simp add: subprocess_run_def DEFAULT_SUBPROCESS_KWARGS_def succeeded_def
        split: run_outcome.splits)
  moreover have "json_loads e None = Inl TypeError"
    by (simp add: json_loads_def)
  moreover have "fst (fresh_start a e) = Inl TypeError"
    using ok by (simp add: fresh_start_steps)
  moreover have "filter is_probe (snd (fresh_start a e)) = []"
    using ok
    by (simp add: fresh_start_steps accounts_trace_def init_run_def acct_print_def
        publish_run_def publish_print_def gift_run_def)
  ultimately show ?thesis
    by simp
qed

theorem gift_stdout_not_captured_witness:
  "run_at env_up 4 = Exited 0 GIFT_STDOUT
   \<and> json_loads env_up (Some GIFT_STDOUT)
       = Inr (PDict [(''Result'',
               PDict [(''transaction_hash'', PStr ''0xabc''), (''success'', PBool True)])])
   \<and> fst (fresh_start args_fresh env_up) = Inl TypeError
   \<and> filter is_probe (snd (fresh_start args_fresh env_up)) = []"
proof -
  have ok: "\<forall>k<5. succeeded (run_at env_up k)"
    by (simp add: env_up_def succeeded_def)
  have given: "run_at env_up 4 = Exited 0 GIFT_STDOUT"
    "json_loads env_up (Some GIFT_STDOUT)
       = Inr (PDict [(''Result'',
               PDict [(''transaction_hash'', PStr ''0xabc''), (''success'', PBool True)])])"
    by (simp_all add: env_up_def json_loads_def)
  show ?thesis
    using gift_stdout_not_captured [OF ok, of args_fresh] given by blast
qed

text \<open>
  C6. The claim: the claim step runs a transaction as player 1 with the gift address and
  two empty byte vectors. The script joins a list of tuples with \<^verbatim>\<open>",".join\<close>, which
  takes strings only: for every gift address the step raises TypeError before
  \<^verbatim>\<open>subprocess.run\<close> is called, and no command is run.
\<close>

theorem snatch_never_runs: "snatch a e gift_address = (Inl TypeError, [])"
  by (simp add: snatch_def py_join_def lift_def)

text \<open>
  C7. The claim: every fatal error ends the process with a status that is not 0, a
  node crash before readiness included. The script prints the crash message and returns
  from \<^verbatim>\<open>main\<close>: the status is 0.
\<close>

theorem crash_exits_with_status_zero:
  "fst (wait_until_ready (1 / 4) env_crash 1 0) = Some Crashed
   \<and> exit_status (fst (main args_fresh env_crash 1)) = Some 0"
proof -
  have l: "fst (launch args_fresh env_crash) = Inr ()"
    by (rule launch_plain [of _ 1]) (simp_all add: env_crash_def args_fresh_def)
  have w: "fst (wait_until_ready (1 / 4) env_crash 1 0) = Some Crashed"
    by (rule loop_crash)
  have "fst (main args_fresh env_crash 1) = Some (Inr ())"
    unfolding main_eq l w by simp
  with w show ?thesis
    by (simp only: exit_status_def option.case sum.case simp_thms)
qed

text \<open>
  C7, as the script has it. An exception that leaves \<^verbatim>\<open>main\<close> ends the process with
  a status that is not 0; so does the failure of a provisioning command, after which no
  later command is run. A node crash seen before readiness ends the run with the crash
  message as the last output, no provisioning, and the status 0.
\<close>

theorem fatal_errors_and_exit_status:
  "(\<forall>err. fst (main a e fuel) = Some (Inl err) \<longrightarrow>
      exit_status (fst (main a e fuel)) = Some (if err = KeyboardInterrupt then 130 else 1))
   \<and> (fst (launch a e) = Inr () \<and> fst (wait_until_ready (1 / 4) e fuel 0) = Some Crashed \<longrightarrow>
        fst (main a e fuel) = Some (Inr ())
        \<and> exit_status (fst (main a e fuel)) = Some 0
        \<and> last (snd (main a e fuel)) = CRASH_PRINT
        \<and> E_enter_fresh_start \<notin> set (snd (main a e fuel)))
   \<and> (fst (launch a e) = Inr () \<and> fst (wait_until_ready (1 / 4) e fuel 0) = Some Ready
        \<and> force_restart a \<and> k \<le> 4 \<and> (\<forall>j<k. succeeded (run_at e j))
        \<and> \<not> succeeded (run_at e k) \<longrightarrow>
        fst (main a e fuel) = Some (Inl (run_error (run_at e k)))
        \<and> exit_status (fst (main a e fuel)) = Some 1
        \<and> length (filter is_run (snd (fresh_start a e))) = Suc k)"
proof (intro conjI allI impI)
  fix err
  assume "fst (main a e fuel) = Some (Inl err)"
  then show "exit_status (fst (main a e fuel)) = Some (if err = KeyboardInterrupt then 130 else 1)"
    by (simp add: exit_status_def)
next
  assume h: "fst (launch a e) = Inr () \<and> fst (wait_until_ready (1 / 4) e fuel 0) = Some Crashed"
  then show ret: "fst (main a e fuel) = Some (Inr ())"
    by (simp add: main_eq)
  then show "exit_status (fst (main a e fuel)) = Some 0"
    by (simp add: exit_status_def)
  from h loop_crashed_last [of "1 / 4" e fuel 0]
  show "last (snd (main a e fuel)) = CRASH_PRINT"
    by (simp add: main_eq)
  from h launch_no_enter [of a e] loop_no_enter [of "1 / 4" e fuel 0]
  show "E_enter_fresh_start \<notin> set (snd (main a e fuel))"
    by (simp add: main_eq)
next
  assume h: "fst (launch a e) = Inr () \<and> fst (wait_until_ready (1 / 4) e fuel 0) = Some Ready
        \<and> force_restart a \<and> k \<le> 4 \<and> (\<forall>j<k. succeeded (run_at e j))
        \<and> \<not> succeeded (run_at e k)"
  then have ab: "fst (fresh_start a e) = Inl (run_error (run_at e k))
    \<and> length (filter is_run (snd (fresh_start a e))) = Suc k"
    by (intro fresh_start_aborts) simp_all
  with h show m: "fst (main a e fuel) = Some (Inl (run_error (run_at e k)))"
    by (simp add: main_eq after_ready_eq)
  then show "exit_status (fst (main a e fuel)) = Some 1"
    by (simp add: run_error_status)
  from ab show "length (filter is_run (snd (fresh_start a e))) = Suc k"
    by simp
qed

theorem fatal_errors_and_exit_status_witness:
  "fst (launch args_fresh env_crash) = Inr ()
   \<and> fst (wait_until_ready (1 / 4) env_crash 1 0) = Some Crashed
   \<and> exit_status (fst (main args_fresh env_crash 1)) = Some 0
   \<and> E_enter_fresh_start \<notin> set (snd (main args_fresh env_crash 1))
   \<and> fst (launch args_fresh env_publish_fails) = Inr ()
   \<and> fst (wait_until_ready (1 / 4) env_publish_fails 5 0) = Some Ready
   \<and> fst (main args_fresh env_publish_fails 5) = Some (Inl (CalledProcessError 1))
   \<and> exit_status (fst (main args_fresh env_publish_fails 5)) = Some 1
   \<and> length (filter is_run (snd (fresh_start args_fresh env_publish_fails))) = 4"
proof -
  have crash: "fst (launch args_fresh env_crash) = Inr ()"
    "fst (wait_until_ready (1 / 4) env_crash 1 0) = Some Crashed"
    by (simp_all add: launch_plain [of _ 1] env_crash_def args_fresh_def truthy_rc_def)
  have pub: "fst (launch args_fresh env_publish_fails) = Inr ()"
    "fst (wait_until_ready (1 / 4) env_publish_fails 5 0) = Some Ready"
    "force_restart args_fresh" "(3 :: nat) \<le> 4"
    "\<forall>j<3. succeeded (run_at env_publish_fails j)"
    "\<not> succeeded (run_at env_publish_fails 3)"
    "run_error (run_at env_publish_fails 3) = CalledProcessError 1"
    by (simp_all add: launch_plain [of _ 1] env_publish_fails_def env_up_def args_fresh_def
        truthy_rc_def eval_nat_numeral succeeded_def run_error_def)
  from fatal_errors_and_exit_status [of args_fresh env_crash 1 0] crash
  have c: "exit_status (fst (main args_fresh env_crash 1)) = Some 0
    \<and> E_enter_fresh_start \<notin> set (snd (main args_fresh env_crash 1))"
    by blast
  from fatal_errors_and_exit_status [of args_fresh env_publish_fails 5 3] pub
  have p: "fst (main args_fresh env_publish_fails 5) = Some (Inl (CalledProcessError 1))
    \<and> exit_status (fst (main args_fresh env_publish_fails 5)) = Some 1
    \<and> length (filter is_run (snd (fresh_start args_fresh env_publish_fails))) = 4"
    by simp
  from crash pub c p show ?thesis
    by blast
qed

text \<open>
  C8. One ctrl-c while the script waits for the node: the script prints, waits again
  and returns; it sends no signal and runs no \<^verbatim>\<open>kill\<close>, so the one ctrl-c is the only
  signal that reaches the node, and a run that came to the wait ends with status 0.
\<close>

theorem single_interrupt_shutdown:
  "wait_at e 0 = Interrupted \<Longrightarrow> wait_at e 1 = Child_exited rc \<Longrightarrow>
   wait_for_exit e =
     (Some (Inr ()),
      [E_wait Interrupted,
       E_print [Lit ''[Local] Received ctrl-c, shutting down localnet''],
       E_wait (Child_exited rc),
       E_print [Lit ''[Local] Localnet shut down''],
       E_print [Lit ''[Local] Done, goodbye!'']])
   \<and> filter is_signal (snd (wait_for_exit e)) = []
   \<and> signals_reaching_child (snd (wait_for_exit e)) = 1
   \<and> (fst (launch a e) = Inr () \<and> fst (wait_until_ready (1 / 4) e fuel 0) = Some Ready
        \<and> \<not> force_restart a \<longrightarrow>
        fst (main a e fuel) = Some (Inr ()) \<and> exit_status (fst (main a e fuel)) = Some 0)"
proof -
  assume w: "wait_at e 0 = Interrupted" "wait_at e 1 = Child_exited rc"
  then have shape: "wait_for_exit e =
     (Some (Inr ()),
      [E_wait Interrupted,
       E_print [Lit ''[Local] Received ctrl-c, shutting down localnet''],
       E_wait (Child_exited rc),
       E_print [Lit ''[Local] Localnet shut down''],
       E_print [Lit ''[Local] Done, goodbye!'']])"
    by (simp add: wait_for_exit_def)
  have quiet: "filter is_signal (snd (wait_for_exit e)) = []"
    and one: "signals_reaching_child (snd (wait_for_exit e)) = 1"
    by (simp_all add: shape signals_reaching_child_def)
  have "fst (main a e fuel) = Some (Inr ()) \<and> exit_status (fst (main a e fuel)) = Some 0"
    if "fst (launch a e) = Inr () \<and> fst (wait_until_ready (1 / 4) e fuel 0) = Some Ready
        \<and> \<not> force_restart a"
    using that by (simp add: main_eq after_ready_eq shape exit_status_def)
  with shape quiet one show ?thesis
    by blast
qed

theorem single_interrupt_shutdown_witness:
  "wait_at env_up 0 = Interrupted \<and> wait_at env_up 1 = Child_exited 0
   \<and> filter is_signal (snd (wait_for_exit env_up)) = []
   \<and> signals_reaching_child (snd (wait_for_exit env_up)) = 1
   \<and> fst (launch args_resume env_up) = Inr ()
   \<and> fst (wait_until_ready (1 / 4) env_up 5 0) = Some Ready
   \<and> fst (main args_resume env_up 5) = Some (Inr ())
   \<and> exit_status (fst (main args_resume env_up 5)) = Some 0"
proof -
  have w: "wait_at env_up 0 = Interrupted" "wait_at env_up 1 = Child_exited 0"
    by (simp_all add: env_up_def)
  have r: "fst (launch args_resume env_up) = Inr ()"
    "fst (wait_until_ready (1 / 4) env_up 5 0) = Some Ready"
    "\<not> force_restart args_resume"
    by (simp_all add: launch_up loop_up args_resume_def)
  show ?thesis
    using single_interrupt_shutdown [OF w, of args_resume 5] w r by blast
qed

text \<open>
  C9. For every poll interval \<open>p > 0\<close> the loop makes at most one probe in any window
  of length \<open>p\<close>, since it sleeps for \<open>p\<close> after each probe that fails; and while the
  probes fail and the node is alive it goes on: after any number \<open>n\<close> of such iterations
  it has not returned, and has made \<open>n\<close> probes and \<open>n\<close> sleeps.
\<close>

theorem readiness_loop_paced:
  "0 < p \<Longrightarrow>
   length (filter (\<lambda>s. w \<le> s \<and> s < w + p)
             (probe_times 0 (snd (wait_until_ready p e fuel 0)))) \<le> 1
   \<and> ((\<forall>j<n. (\<forall>b. probe_at e j \<noteq> Http_response 200 b) \<and> poll_at e j = None) \<longrightarrow>
        fst (wait_until_ready p e n 0) = None
        \<and> length (filter is_probe (snd (wait_until_ready p e n 0))) = n
        \<and> length (filter is_sleep (snd (wait_until_ready p e n 0))) = n)"
  using spaced_window [OF probe_times_spaced [of p 0 e fuel 0], of w] loop_continues [of 0 n e p]
  by simp

theorem readiness_loop_paced_witness:
  "(0 :: rat) < 1 / 4
   \<and> length (filter (\<lambda>s. 1 / 8 \<le> s \<and> s < 1 / 8 + 1 / 4)
               (probe_times 0 (snd (wait_until_ready (1 / 4) env_up 5 0)))) \<le> 1
   \<and> fst (wait_until_ready (1 / 4) env_up 3 0) = None
   \<and> length (filter is_probe (snd (wait_until_ready (1 / 4) env_up 3 0))) = 3
   \<and> length (filter is_sleep (snd (wait_until_ready (1 / 4) env_up 3 0))) = 3"
proof -
  have p: "(0 :: rat) < 1 / 4"
    by simp
  have h: "\<forall>j<3. (\<forall>b. probe_at env_up j \<noteq> Http_response 200 b) \<and> poll_at env_up j = None"
    by (simp add: env_up_def)
  show ?thesis
    using readiness_loop_paced [OF p, of "1 / 8" env_up 5 3] h p by blast
qed

text \<open>
  C10. With the debug option the script raises AttributeError at
  \<^verbatim>\<open>logging.setLevel\<close>, which is no name of the \<^verbatim>\<open>logging\<close> module, before it looks at
  the port or starts the node: the run has no effect at all.
\<close>

theorem debug_raises_before_launch:
  "debug a \<Longrightarrow> main a e fuel = (Some (Inl AttributeError), [])"
  by (simp add: main_def launch_def lift_def module_getattr_def logging_module_names_def)

theorem debug_raises_before_launch_witness:
  "debug args_debug \<and> main args_debug env_up 5 = (Some (Inl AttributeError), [])"
proof -
  have d: "debug args_debug"
    by (simp add: args_debug_def)
  show ?thesis
    using debug_raises_before_launch [OF d, of env_up 5] d by simp
qed

end
